theory Spec2Isabelle
  imports Main "HOL-Library.Word" "HOL-Library.AList"
begin

unbundle bit_operations_syntax

section \<open>Bytes, errors and the external primitives\<close>

text \<open>
  An \<^verbatim>\<open>ArrayBuffer\<close> or \<^verbatim>\<open>Uint8Array\<close> is a list of bytes. JavaScript numbers that
  hold counters and sizes are integers; they are modelled as \<open>int\<close>.
\<close>

type_synonym byte = "8 word"
type_synonym bytes = "byte list"

text \<open>
  The library throws \<^verbatim>\<open>new Error(message)\<close> everywhere. Each constructor stands for
  the messages listed with it; the names are the error kinds of the specification.
  \<^item> \<open>MalformedMessage\<close>: every error of \<^verbatim>\<open>exportProto\<close> and \<^verbatim>\<open>importProto\<close>.
  \<^item> \<open>BadIdentity\<close>: "Remote client's identity key is invalid.",
    "Remote client's signed prekey is invalid."
  \<^item> \<open>UnknownPreKey\<close>: "PreKey with id N not found".
  \<^item> \<open>MessageOutsideRatchetWindow\<close>: "Message too old - outside ratchet window".
  \<^item> \<open>DuplicateMessage\<close>: "Message with counter N is too old. Current counter is M".
  \<^item> \<open>DecryptFailed\<close>: rejection of \<^verbatim>\<open>Secret.decrypt\<close>,
    "The Message did not successfully verify!".
  \<^item> \<open>EngineUnavailable\<close>: "WebCrypto not available for SHA-256 hashing".
  \<^item> \<open>InvalidKey\<close>: the size checks of \<^verbatim>\<open>Curve\<close> and \<^verbatim>\<open>ECPublicKey\<close>.
  \<^item> \<open>PrimitiveError\<close>: an exception raised inside an external primitive.
  \<^item> \<open>TypeError\<close>: the JavaScript \<^verbatim>\<open>TypeError\<close> of a property read on \<^verbatim>\<open>undefined\<close>
    or of a call of a method the value does not have.
  \<^item> \<open>RangeError\<close>: the JavaScript \<^verbatim>\<open>RangeError\<close> (\<^verbatim>\<open>toISOString\<close> of an invalid date,
    a typed array of an impossible length).
  \<^item> \<open>InternalError\<close>: "Failed to create receiving chain", "Failed to create sending
    chain", "currentStep has empty remoteRatchetKey", "Failed to derive message key".
\<close>

datatype error =
    MalformedMessage
  | BadIdentity
  | UnknownPreKey
  | MessageOutsideRatchetWindow
  | DuplicateMessage
  | DecryptFailed
  | EngineUnavailable
  | InvalidKey
  | PrimitiveError
  | TypeError
  | RangeError
  | InternalError

text \<open>
  The primitives the library calls but does not implement: \<^verbatim>\<open>@noble/curves\<close>
  (\<^verbatim>\<open>x25519\<close>, \<^verbatim>\<open>ed25519\<close>) and WebCrypto (SHA-256, HMAC-SHA-256, AES-GCM). They are
  parameters of every function that uses them. \<open>subtle_digest\<close> is \<open>None\<close> when
  \<^verbatim>\<open>globalThis.crypto.subtle\<close> is missing.
\<close>

record engine =
  subtle_digest :: "(bytes \<Rightarrow> bytes) option"
  x25519_getPublicKey :: "bytes \<Rightarrow> bytes"
  x25519_getSharedSecret :: "bytes \<Rightarrow> bytes \<Rightarrow> error + bytes"
  ed25519_getPublicKey :: "bytes \<Rightarrow> bytes"
  ed25519_sign :: "bytes \<Rightarrow> bytes \<Rightarrow> bytes"
  ed25519_verify :: "bytes \<Rightarrow> bytes \<Rightarrow> bytes \<Rightarrow> error + bool"
  hmac_sha256 :: "bytes \<Rightarrow> bytes \<Rightarrow> bytes"
  aes_gcm_encrypt :: "bytes \<Rightarrow> bytes \<Rightarrow> bytes \<Rightarrow> bytes \<Rightarrow> bytes"
  aes_gcm_decrypt :: "bytes \<Rightarrow> bytes \<Rightarrow> bytes \<Rightarrow> bytes \<Rightarrow> bytes option"

text \<open>\<^verbatim>\<open>try { body } catch (error) { handler }\<close>\<close>

definition try_catch :: "error + 'a \<Rightarrow> (error \<Rightarrow> error + 'a) \<Rightarrow> error + 'a" where
  "try_catch body handler = (case body of Inl e \<Rightarrow> handler e | Inr v \<Rightarrow> Inr v)"

section \<open>utils: Convert, combine, isEqual\<close>

definition hexDigit :: "nat \<Rightarrow> char" where
  "hexDigit n = ''0123456789abcdef'' ! n"

text \<open>\<^verbatim>\<open>Convert.ToHex\<close>: every byte as two lower-case hexadecimal digits.\<close>

definition ToHex :: "bytes \<Rightarrow> string" where
  "ToHex data = concat (map (\<lambda>b. [hexDigit (unat b div 16), hexDigit (unat b mod 16)]) data)"

text \<open>\<^verbatim>\<open>Convert.FromBinary\<close>: one byte per character code.\<close>

definition FromBinary :: "string \<Rightarrow> bytes" where
  "FromBinary data = map (\<lambda>c. of_char c) data"

definition combine :: "bytes list \<Rightarrow> bytes" where
  "combine buffers = concat buffers"

text \<open>
  \<^verbatim>\<open>isEqual\<close>: the length test, then the OR of the XORs of all byte pairs.
\<close>

definition isEqual :: "bytes \<Rightarrow> bytes \<Rightarrow> bool" where
  "isEqual a b =
     (if length a \<noteq> length b then False
      else fold (\<lambda>(x, y) result. result OR (x XOR y)) (zip a b) (0 :: byte) = 0)"

section \<open>crypto: ECPublicKey, key pairs, Curve\<close>

datatype CurveType = Ed25519 | X25519

text \<open>
  \<^verbatim>\<open>ECPublicKey\<close>: \<open>pk_id\<close> is the field \<^verbatim>\<open>id\<close> (the hexadecimal thumbprint),
  \<open>pk_type\<close> is \<^verbatim>\<open>key.algorithm.name\<close>, \<open>serialized\<close> the raw key.
\<close>

record ECPublicKey =
  pk_id :: string
  pk_type :: CurveType
  serialized :: bytes

definition thumbprint :: "engine \<Rightarrow> bytes \<Rightarrow> error + string" where
  "thumbprint eng bs =
     (case subtle_digest eng of
        None \<Rightarrow> Inl EngineUnavailable
      | Some digest \<Rightarrow> Inr (ToHex (digest bs)))"

text \<open>
  The argument \<^verbatim>\<open>ArrayBuffer | Uint8Array\<close> of \<^verbatim>\<open>createFromBytes\<close>. A \<^verbatim>\<open>Uint8Array\<close> is a
  view: its underlying \<^verbatim>\<open>buffer\<close>, its \<^verbatim>\<open>byteOffset\<close> and its \<^verbatim>\<open>length\<close>.
\<close>

datatype BufferSource = ArrayBuffer bytes | Uint8Array bytes nat nat

text \<open>
  \<^verbatim>\<open>createFromBytes\<close> tests the length of the view \<^verbatim>\<open>keyBytes\<close> and stores
  \<^verbatim>\<open>keyBytes.buffer\<close>, the whole underlying buffer, as \<^verbatim>\<open>serialized\<close>; the thumbprint is
  taken of \<^verbatim>\<open>serialized\<close>.
\<close>

definition createFromBytes :: "engine \<Rightarrow> BufferSource \<Rightarrow> CurveType \<Rightarrow> error + ECPublicKey" where
  "createFromBytes eng src type =
     (let keyBytes_length = (case src of ArrayBuffer b \<Rightarrow> length b | Uint8Array b off len \<Rightarrow> len);
          keyBytes_buffer = (case src of ArrayBuffer b \<Rightarrow> b | Uint8Array b off len \<Rightarrow> b)
      in if keyBytes_length \<noteq> 32 then Inl InvalidKey
         else case thumbprint eng keyBytes_buffer of
                Inl e \<Rightarrow> Inl e
              | Inr t \<Rightarrow> Inr \<lparr>pk_id = t, pk_type = type, serialized = keyBytes_buffer\<rparr>)"

text \<open>
  The private \<^verbatim>\<open>CryptoKey\<close> objects of \<^verbatim>\<open>Curve.createPrivateKey\<close>. \<open>rawBytes\<close> is the
  property \<^verbatim>\<open>_rawBytes\<close>, which a key that was not made by this library lacks.
\<close>

record PrivateKey =
  sk_type :: CurveType
  extractable :: bool
  rawBytes :: "bytes option"

record IECKeyPair =
  privateKey :: PrivateKey
  publicKey :: ECPublicKey

definition createPrivateKey :: "bytes \<Rightarrow> CurveType \<Rightarrow> bool \<Rightarrow> PrivateKey" where
  "createPrivateKey raw curveName ext =
     \<lparr>sk_type = curveName, extractable = ext, rawBytes = Some raw\<rparr>"

text \<open>
  \<^verbatim>\<open>Curve.generateKeyPair\<close>; \<open>privateKeyBytes\<close> is what \<^verbatim>\<open>utils.randomPrivateKey()\<close>
  returned. The public key that the primitive returns is a \<^verbatim>\<open>Uint8Array\<close> spanning its
  own buffer.
\<close>

definition generateKeyPair ::
  "engine \<Rightarrow> bytes \<Rightarrow> CurveType \<Rightarrow> bool \<Rightarrow> error + IECKeyPair" where
  "generateKeyPair eng privateKeyBytes type ext =
     (let publicKeyBytes =
            (case type of X25519 \<Rightarrow> x25519_getPublicKey eng privateKeyBytes
                        | Ed25519 \<Rightarrow> ed25519_getPublicKey eng privateKeyBytes)
      in case createFromBytes eng (Uint8Array publicKeyBytes 0 (length publicKeyBytes)) type of
           Inl e \<Rightarrow> Inl e
         | Inr pk \<Rightarrow> Inr \<lparr>privateKey = createPrivateKey privateKeyBytes type ext,
                          publicKey = pk\<rparr>)"

definition deriveBytes :: "engine \<Rightarrow> PrivateKey \<Rightarrow> ECPublicKey \<Rightarrow> error + bytes" where
  "deriveBytes eng sk pk =
     (let publicKeyBytes = serialized pk in
      case rawBytes sk of
        None \<Rightarrow> Inl InvalidKey
      | Some privateKeyBytes \<Rightarrow>
          if length privateKeyBytes \<noteq> 32 then Inl InvalidKey
          else if length publicKeyBytes \<noteq> 32 then Inl InvalidKey
          else x25519_getSharedSecret eng privateKeyBytes publicKeyBytes)"

text \<open>
  \<^verbatim>\<open>Curve.verify\<close>. The arguments are optional because callers pass fields of decoded
  records that may be \<^verbatim>\<open>undefined\<close>: \<^verbatim>\<open>signingKey.serialize()\<close> then raises a
  \<^verbatim>\<open>TypeError\<close>, and \<^verbatim>\<open>new Uint8Array(undefined)\<close> is empty. \<open>Curve_verify_try\<close> is the
  body of the \<^verbatim>\<open>try\<close> block.
\<close>

definition Curve_verify_try ::
  "engine \<Rightarrow> ECPublicKey option \<Rightarrow> bytes option \<Rightarrow> bytes option \<Rightarrow> error + bool" where
  "Curve_verify_try eng signingKey message signature =
     (case signingKey of
        None \<Rightarrow> Inl TypeError
      | Some k \<Rightarrow>
          let publicKeyBytes = serialized k;
              messageBytes = (case message of None \<Rightarrow> [] | Some m \<Rightarrow> m);
              signatureBytes = (case signature of None \<Rightarrow> [] | Some s \<Rightarrow> s)
          in if length publicKeyBytes \<noteq> 32 then Inl InvalidKey
             else if length signatureBytes \<noteq> 64 then Inl InvalidKey
             else ed25519_verify eng signatureBytes messageBytes publicKeyBytes)"

definition Curve_verify ::
  "engine \<Rightarrow> ECPublicKey option \<Rightarrow> bytes option \<Rightarrow> bytes option \<Rightarrow> error + bool" where
  "Curve_verify eng signingKey message signature =
     try_catch (Curve_verify_try eng signingKey message signature) (\<lambda>e. Inr False)"

definition Curve_sign :: "engine \<Rightarrow> PrivateKey \<Rightarrow> bytes \<Rightarrow> error + bytes" where
  "Curve_sign eng signingKey message =
     (case rawBytes signingKey of
        None \<Rightarrow> Inl InvalidKey
      | Some privateKeyBytes \<Rightarrow>
          if length privateKeyBytes \<noteq> 32 then Inl InvalidKey
          else Inr (ed25519_sign eng privateKeyBytes message))"

definition bindE :: "error + 'a \<Rightarrow> ('a \<Rightarrow> error + 'b) \<Rightarrow> error + 'b" where
  "bindE m f = (case m of Inl e \<Rightarrow> Inl e | Inr v \<Rightarrow> f v)"

section \<open>crypto: Secret\<close>

text \<open>
  Modelled from the spec: the class \<^verbatim>\<open>Secret\<close> (\<^verbatim>\<open>crypto/secret.ts\<close>) is not among the
  sources. Section 4.1 of the specification: HKDF uses SHA-256; with no salt the salt
  is a 32-byte zero vector; \<^verbatim>\<open>HKDF(input, n, salt, info)\<close> extracts, then expands into
  \<open>n\<close> output blocks (RFC 5869). Keys imported by \<^verbatim>\<open>importHMAC\<close> and \<^verbatim>\<open>importAES\<close> are
  opaque handles on the raw bytes; \<^verbatim>\<open>sign\<close> is HMAC-SHA-256; \<^verbatim>\<open>encrypt\<close> and
  \<^verbatim>\<open>decrypt\<close> are AES-256-GCM, and a failed tag check is \<open>DecryptFailed\<close>.
\<close>

type_synonym HMACCryptoKey = bytes
type_synonym AESCryptoKey = bytes

definition importHMAC :: "bytes \<Rightarrow> HMACCryptoKey" where
  "importHMAC raw = raw"

definition importAES :: "bytes \<Rightarrow> AESCryptoKey" where
  "importAES raw = raw"

definition Secret_sign :: "engine \<Rightarrow> HMACCryptoKey \<Rightarrow> bytes \<Rightarrow> bytes" where
  "Secret_sign eng key data = hmac_sha256 eng key data"

fun HKDF_expand :: "engine \<Rightarrow> HMACCryptoKey \<Rightarrow> bytes \<Rightarrow> nat \<Rightarrow> nat \<Rightarrow> bytes \<Rightarrow> bytes list" where
  "HKDF_expand eng PRK info 0 i T = []"
| "HKDF_expand eng PRK info (Suc n) i T =
     (let T' = Secret_sign eng PRK (combine [T, info, [of_nat (i + 1)]])
      in T' # HKDF_expand eng PRK info n (i + 1) T')"

definition HKDF ::
  "engine \<Rightarrow> bytes \<Rightarrow> nat \<Rightarrow> HMACCryptoKey option \<Rightarrow> bytes \<Rightarrow> bytes list" where
  "HKDF eng IKM keysCount salt info =
     (let salt' = (case salt of None \<Rightarrow> importHMAC (replicate 32 0) | Some s \<Rightarrow> s);
          PRK = importHMAC (Secret_sign eng salt' IKM)
      in HKDF_expand eng PRK info keysCount 0 [])"

definition Secret_encrypt :: "engine \<Rightarrow> AESCryptoKey \<Rightarrow> bytes \<Rightarrow> bytes \<Rightarrow> bytes \<Rightarrow> bytes" where
  "Secret_encrypt eng key data iv aad = aes_gcm_encrypt eng key iv aad data"

definition Secret_decrypt ::
  "engine \<Rightarrow> AESCryptoKey \<Rightarrow> bytes \<Rightarrow> bytes \<Rightarrow> bytes \<Rightarrow> error + bytes" where
  "Secret_decrypt eng key data iv aad =
     (case aes_gcm_decrypt eng key iv aad data of
        None \<Rightarrow> Inl DecryptFailed
      | Some plain \<Rightarrow> Inr plain)"

section \<open>const\<close>

definition DEFAULT_MAX_RATCHET_STEPS :: int where "DEFAULT_MAX_RATCHET_STEPS = 1000"
definition DEFAULT_MAX_SKIPPED_KEYS :: int where "DEFAULT_MAX_SKIPPED_KEYS = 10000"
definition DEFAULT_SKIPPED_KEY_TTL :: int where
  "DEFAULT_SKIPPED_KEY_TTL = 7 * 24 * 60 * 60 * 1000"
definition DEFAULT_MAX_MESSAGE_KEYS_PER_STEP :: int where
  "DEFAULT_MAX_MESSAGE_KEYS_PER_STEP = 1000"

definition INFO_TEXT :: bytes where "INFO_TEXT = FromBinary ''Signal_X3DH''"
definition INFO_RATCHET :: bytes where "INFO_RATCHET = FromBinary ''WhisperRatchet''"
definition INFO_MESSAGE_KEYS :: bytes where "INFO_MESSAGE_KEYS = FromBinary ''WhisperMessageKeys''"

definition X3DH_SALT_LENGTH :: nat where "X3DH_SALT_LENGTH = 32"
definition X3DH_FILL_BYTE :: byte where "X3DH_FILL_BYTE = 0xff"

section \<open>data: Identity\<close>

text \<open>
  \<^verbatim>\<open>Identity\<close>. The two pre-key lists are JavaScript arrays indexed by the pre-key id;
  an element is \<open>None\<close> where the array has a hole (after \<^verbatim>\<open>delete\<close>). Dates are
  milliseconds since the epoch.
\<close>

record Identity =
  identity_id :: int
  identity_signingKey :: IECKeyPair
  identity_exchangeKey :: IECKeyPair
  identity_createdAt :: int
  preKeys :: "IECKeyPair option list"
  signedPreKeys :: "IECKeyPair option list"

text \<open>\<^verbatim>\<open>array[i]\<close>: \<^verbatim>\<open>undefined\<close> outside the array and at a hole.\<close>

definition array_get :: "'a option list \<Rightarrow> int \<Rightarrow> 'a option" where
  "array_get xs i = (if 0 \<le> i \<and> nat i < length xs then xs ! nat i else None)"

text \<open>\<^verbatim>\<open>delete array[i]\<close> for an index inside the array: a hole, the length stays.\<close>

definition array_delete :: "'a option list \<Rightarrow> int \<Rightarrow> 'a option list" where
  "array_delete xs i = (if 0 \<le> i \<and> nat i < length xs then xs[nat i := None] else xs)"

section \<open>ratchet: X3DH\<close>

definition authenticateA ::
  "engine \<Rightarrow> Identity \<Rightarrow> IECKeyPair \<Rightarrow> ECPublicKey \<Rightarrow> ECPublicKey \<Rightarrow> ECPublicKey option
     \<Rightarrow> error + HMACCryptoKey" where
  "authenticateA eng IKa EKa IKb SPKb OPKb =
     bindE (deriveBytes eng (privateKey (identity_exchangeKey IKa)) SPKb) (\<lambda>DH1.
     bindE (deriveBytes eng (privateKey EKa) IKb) (\<lambda>DH2.
     bindE (deriveBytes eng (privateKey EKa) SPKb) (\<lambda>DH3.
     bindE (case OPKb of None \<Rightarrow> Inr []
                       | Some opk \<Rightarrow> deriveBytes eng (privateKey EKa) opk) (\<lambda>DH4.
       let F = replicate X3DH_SALT_LENGTH X3DH_FILL_BYTE;
           KM = combine [F, DH1, DH2, DH3, DH4];
           keys = HKDF eng KM 1 None INFO_TEXT
       in Inr (importHMAC (keys ! 0))))))"

definition authenticateB ::
  "engine \<Rightarrow> Identity \<Rightarrow> IECKeyPair \<Rightarrow> ECPublicKey \<Rightarrow> ECPublicKey \<Rightarrow> PrivateKey option
     \<Rightarrow> error + HMACCryptoKey" where
  "authenticateB eng IKb SPKb IKa EKa OPKb =
     bindE (deriveBytes eng (privateKey SPKb) IKa) (\<lambda>DH1.
     bindE (deriveBytes eng (privateKey (identity_exchangeKey IKb)) EKa) (\<lambda>DH2.
     bindE (deriveBytes eng (privateKey SPKb) EKa) (\<lambda>DH3.
     bindE (case OPKb of None \<Rightarrow> Inr []
                       | Some opk \<Rightarrow> deriveBytes eng opk EKa) (\<lambda>DH4.
       let F = replicate X3DH_SALT_LENGTH X3DH_FILL_BYTE;
           KM = combine [F, DH1, DH2, DH3, DH4];
           keys = HKDF eng KM 1 None INFO_TEXT
       in Inr (importHMAC (keys ! 0))))))"

text \<open>
  A key pair as \<^verbatim>\<open>Curve.generateKeyPair("X25519", _)\<close> makes it: 32 private bytes and
  the public key computed from them.
\<close>

definition x25519_pair :: "engine \<Rightarrow> IECKeyPair \<Rightarrow> bool" where
  "x25519_pair eng kp =
     (case rawBytes (privateKey kp) of
        None \<Rightarrow> False
      | Some sk \<Rightarrow> length sk = 32 \<and> length (serialized (publicKey kp)) = 32 \<and>
                  serialized (publicKey kp) = x25519_getPublicKey eng sk)"

text \<open>
  X25519 on a 32-byte private key and the public key of a 32-byte private key returns
  a shared secret (the primitive raises only on a public key of low order).
\<close>

definition dh_succeeds :: "engine \<Rightarrow> bool" where
  "dh_succeeds eng =
     (\<forall>a b. length a = 32 \<and> length b = 32 \<longrightarrow>
        (\<exists>s. x25519_getSharedSecret eng a (x25519_getPublicKey eng b) = Inr s))"

text \<open>The Diffie-Hellman law of X25519, for 32-byte private keys.\<close>

definition dh_commutes :: "engine \<Rightarrow> bool" where
  "dh_commutes eng =
     (\<forall>a b. length a = 32 \<and> length b = 32 \<longrightarrow>
        x25519_getSharedSecret eng a (x25519_getPublicKey eng b) =
        x25519_getSharedSecret eng b (x25519_getPublicKey eng a))"

section \<open>An executable stand-in for the primitives\<close>

text \<open>
  Small functions with the shapes of the primitives (sizes, the Diffie-Hellman law,
  decryption inverting encryption and rejecting a wrong tag), so that the model can be
  run on concrete inputs. They are not cryptography.
\<close>

definition pad32 :: "bytes \<Rightarrow> bytes" where
  "pad32 d = take 32 (d @ replicate 32 0)"

definition xor_bytes :: "bytes \<Rightarrow> bytes \<Rightarrow> bytes" where
  "xor_bytes a b = map (\<lambda>(x, y). x XOR y) (zip a b)"

text \<open>The stand-in for a hash: the XOR of \<open>acc\<close> with every 32-byte block of the data.\<close>

fun xor_blocks :: "bytes \<Rightarrow> bytes \<Rightarrow> bytes" where
  "xor_blocks acc [] = acc"
| "xor_blocks acc (x # xs) =
     xor_blocks (xor_bytes acc (pad32 (take 32 (x # xs)))) (drop 32 (x # xs))"

declare xor_blocks.simps(2) [simp del]

definition toy_hmac :: "bytes \<Rightarrow> bytes \<Rightarrow> bytes" where
  "toy_hmac k d = rotate1 (xor_blocks (pad32 k) d)"

definition toy_tag :: "bytes \<Rightarrow> bytes \<Rightarrow> bytes \<Rightarrow> bytes \<Rightarrow> bytes" where
  "toy_tag key iv aad plain = take 16 (xor_blocks (pad32 key) (pad32 (iv @ aad) @ plain))"

definition toy_engine :: engine where
  "toy_engine =
     \<lparr>subtle_digest = Some (xor_blocks (replicate 32 0)),
      x25519_getPublicKey = (\<lambda>sk. sk),
      x25519_getSharedSecret = (\<lambda>a b. Inr (xor_bytes a b)),
      ed25519_getPublicKey = (\<lambda>sk. sk),
      ed25519_sign = (\<lambda>sk m. pad32 sk @ xor_blocks (replicate 32 0) m),
      ed25519_verify = (\<lambda>sig m pk. Inr (sig = pad32 pk @ xor_blocks (replicate 32 0) m)),
      hmac_sha256 = toy_hmac,
      aes_gcm_encrypt = (\<lambda>k iv aad plain. plain @ toy_tag k iv aad plain),
      aes_gcm_decrypt = (\<lambda>k iv aad data.
         if 16 \<le> length data \<and>
            drop (length data - 16) data = toy_tag k iv aad (take (length data - 16) data)
         then Some (take (length data - 16) data) else None)\<rparr>"

text \<open>Fixed keys for the examples: the private key \<open>[n, n, ..., n]\<close>.\<close>

definition toy_pair :: "byte \<Rightarrow> CurveType \<Rightarrow> IECKeyPair" where
  "toy_pair n type =
     \<lparr>privateKey = createPrivateKey (replicate 32 n) type False,
      publicKey = \<lparr>pk_id = ToHex (replicate 32 n), pk_type = type,
                   serialized = replicate 32 n\<rparr>\<rparr>"

definition toy_identity :: "int \<Rightarrow> byte \<Rightarrow> byte \<Rightarrow> byte list \<Rightarrow> byte list \<Rightarrow> Identity" where
  "toy_identity i s e pks spks =
     \<lparr>identity_id = i, identity_signingKey = toy_pair s Ed25519,
      identity_exchangeKey = toy_pair e X25519, identity_createdAt = 0,
      preKeys = map (\<lambda>n. Some (toy_pair n X25519)) pks,
      signedPreKeys = map (\<lambda>n. Some (toy_pair n X25519)) spks\<rparr>"

section \<open>sym_ratchet: the symmetric chains\<close>

text \<open>
  JavaScript objects used as dictionaries (\<^verbatim>\<open>{ [counter: number]: ArrayBuffer }\<close>) are
  association lists: \<open>map_of\<close> reads a key, \<open>AList.update\<close> writes it (in place when
  it is there, at the end otherwise), \<open>AList.delete\<close> is \<^verbatim>\<open>delete\<close>, and
  \<open>map fst\<close> is \<^verbatim>\<open>Object.keys\<close>.

  \<^verbatim>\<open>Date.now()\<close> is the argument \<open>now\<close> of the operation that reads the clock; all
  readings within one operation are this value.
\<close>

definition CIPHER_KEY_KDF_INPUT :: bytes where "CIPHER_KEY_KDF_INPUT = [1]"
definition ROOT_KEY_KDF_INPUT :: bytes where "ROOT_KEY_KDF_INPUT = [2]"

record ICipherMessage =
  cm_cipherText :: bytes
  cm_hmacKey :: HMACCryptoKey

record SymmetricRatchet =
  counter :: int
  rootKey :: HMACCryptoKey

text \<open>\<^verbatim>\<open>new SendingRatchet(rootKey)\<close>\<close>

definition new_SendingRatchet :: "HMACCryptoKey \<Rightarrow> SymmetricRatchet" where
  "new_SendingRatchet k = \<lparr>counter = 0, rootKey = k\<rparr>"

text \<open>\<^verbatim>\<open>calculateKey\<close>: the pair (\<^verbatim>\<open>cipher\<close>, \<^verbatim>\<open>rootKey\<close>).\<close>

definition calculateKey :: "engine \<Rightarrow> HMACCryptoKey \<Rightarrow> bytes \<times> HMACCryptoKey" where
  "calculateKey eng k =
     (let cipherKeyBytes = Secret_sign eng k CIPHER_KEY_KDF_INPUT;
          nextRootKeyBytes = Secret_sign eng k ROOT_KEY_KDF_INPUT
      in (cipherKeyBytes, importHMAC nextRootKeyBytes))"

definition click ::
  "engine \<Rightarrow> 'a SymmetricRatchet_scheme \<Rightarrow> 'a SymmetricRatchet_scheme \<times> bytes" where
  "click eng r =
     (let res = calculateKey eng (rootKey r)
      in (r\<lparr>rootKey := snd res, counter := counter r + 1\<rparr>, fst res))"

definition SendingRatchet_encrypt ::
  "engine \<Rightarrow> SymmetricRatchet \<Rightarrow> bytes \<Rightarrow> bytes \<Rightarrow> SymmetricRatchet \<times> ICipherMessage" where
  "SendingRatchet_encrypt eng r message associatedData =
     (let (r', cipherKey) = click eng r;
          keys = HKDF eng cipherKey 3 None INFO_MESSAGE_KEYS;
          aesKey = importAES (take 32 (keys ! 0));
          hmacKey = importHMAC (keys ! 1);
          iv = take 12 (keys ! 2);
          cipherText = Secret_encrypt eng aesKey message iv associatedData
      in (r', \<lparr>cm_cipherText = cipherText, cm_hmacKey = hmacKey\<rparr>))"

record ReceivingRatchet = SymmetricRatchet +
  messageKeys :: "(int \<times> bytes) list"
  messageKeysCreationTime :: "(int \<times> int) list"

definition MAX_CACHED_KEY_AGE :: int where "MAX_CACHED_KEY_AGE = 60 * 60 * 1000"
definition MAX_CACHED_KEYS :: nat where "MAX_CACHED_KEYS = 2000"

text \<open>\<^verbatim>\<open>new ReceivingRatchet(rootKey)\<close>\<close>

definition new_ReceivingRatchet :: "HMACCryptoKey \<Rightarrow> ReceivingRatchet" where
  "new_ReceivingRatchet k =
     \<lparr>counter = 0, rootKey = k, messageKeys = [], messageKeysCreationTime = []\<rparr>"

text \<open>\<^verbatim>\<open>delete\<close> of every key of a list, in both dictionaries of the chain.\<close>

definition delete_counters :: "int list \<Rightarrow> ReceivingRatchet \<Rightarrow> ReceivingRatchet" where
  "delete_counters cs r =
     r\<lparr>messageKeys := fold AList.delete cs (messageKeys r),
       messageKeysCreationTime := fold AList.delete cs (messageKeysCreationTime r)\<rparr>"

definition cleanupExpiredKeys :: "ReceivingRatchet \<Rightarrow> int \<Rightarrow> ReceivingRatchet" where
  "cleanupExpiredKeys r now =
     delete_counters
       (map fst (filter (\<lambda>(c, t). now - t > MAX_CACHED_KEY_AGE) (messageKeysCreationTime r))) r"

definition enforceMaxCacheSize :: "ReceivingRatchet \<Rightarrow> ReceivingRatchet" where
  "enforceMaxCacheSize r =
     (let keyCounters = map fst (messageKeys r) in
      if length keyCounters > MAX_CACHED_KEYS then
        let sorted_counters = sort keyCounters;
            keysToRemove = length keyCounters - MAX_CACHED_KEYS
        in delete_counters (take keysToRemove sorted_counters) r
      else r)"

text \<open>The \<^verbatim>\<open>while\<close> loop of \<^verbatim>\<open>getKey\<close>, with the \<^verbatim>\<open>throw\<close> that follows it.\<close>

function getKey_loop ::
  "engine \<Rightarrow> ReceivingRatchet \<Rightarrow> int \<Rightarrow> int \<Rightarrow> ReceivingRatchet \<times> (error + bytes)" where
  "getKey_loop eng r cnt now =
     (if counter r \<le> cnt then
        let r1 = fst (click eng r); cipherKey = snd (click eng r) in
        if counter r1 - 1 < cnt then
          getKey_loop eng
            (r1\<lparr>messageKeys := AList.update (counter r1 - 1) cipherKey (messageKeys r1),
                messageKeysCreationTime :=
                  AList.update (counter r1 - 1) now (messageKeysCreationTime r1)\<rparr>)
            cnt now
        else (enforceMaxCacheSize r1, Inr cipherKey)
      else (r, Inl InternalError))"
  by pat_completeness auto
termination
  by (relation "measure (\<lambda>(eng, r, cnt, now). nat (cnt + 1 - counter r))")
     (auto simp: click_def Let_def)

declare getKey_loop.simps [simp del]

definition getKey ::
  "engine \<Rightarrow> ReceivingRatchet \<Rightarrow> int \<Rightarrow> int \<Rightarrow> ReceivingRatchet \<times> (error + bytes)" where
  "getKey eng r0 cnt now =
     (let r = cleanupExpiredKeys r0 now in
      case map_of (messageKeys r) cnt of
        Some key \<Rightarrow> (delete_counters [cnt] r, Inr key)
      | None \<Rightarrow>
          if cnt < counter r then (r, Inl DuplicateMessage)
          else getKey_loop eng r cnt now)"

definition ReceivingRatchet_decrypt ::
  "engine \<Rightarrow> ReceivingRatchet \<Rightarrow> bytes \<Rightarrow> int \<Rightarrow> bytes \<Rightarrow> int
     \<Rightarrow> ReceivingRatchet \<times> (error + ICipherMessage)" where
  "ReceivingRatchet_decrypt eng r message cnt associatedData now =
     (case getKey eng r cnt now of
        (r', Inl e) \<Rightarrow> (r', Inl e)
      | (r', Inr cipherKey) \<Rightarrow>
          let keys = HKDF eng cipherKey 3 None INFO_MESSAGE_KEYS;
              aesKey = importAES (take 32 (keys ! 0));
              hmacKey = importHMAC (keys ! 1);
              iv = take 12 (keys ! 2)
          in case Secret_decrypt eng aesKey message iv associatedData of
               Inl e \<Rightarrow> (r', Inl e)
             | Inr cipherText \<Rightarrow>
                 (r', Inr \<lparr>cm_cipherText = cipherText, cm_hmacKey = hmacKey\<rparr>))"

section \<open>protocol: the metadata-driven codec\<close>


text \<open>
  The classes with \<^verbatim>\<open>@ProtobufElement\<close>, by element name, and the values a property of
  a protocol object holds. An object is its class and its properties; a property that
  is \<^verbatim>\<open>undefined\<close> is \<open>None\<close>. A date is its time value, \<open>None\<close> when invalid.
\<close>

datatype cls = Base | Identity | PreKey | PreKeySigned | PreKeyBundle | Message | MessageSigned
  | PreKeyMessage










text \<open>
  \<^verbatim>\<open>DataView.setUint32(0, value, true)\<close> and \<^verbatim>\<open>getUint32(offset, true)\<close>: the value
  modulo \<open>2^32\<close>, least significant byte first.
\<close>

definition setUint32_le :: "int \<Rightarrow> bytes" where
  "setUint32_le v =
     [word_of_int v, word_of_int (v div 256), word_of_int (v div 65536),
      word_of_int (v div 16777216)]"


text \<open>\<^verbatim>\<open>DataView.setUint32(offset, value, false)\<close>: most significant byte first.\<close>

definition setUint32_be :: "int \<Rightarrow> bytes" where
  "setUint32_be v = rev (setUint32_le v)"






















text \<open>One field on the wire: identifier, length, value.\<close>

definition frame :: "int \<Rightarrow> bytes \<Rightarrow> bytes" where
  "frame i v = setUint32_le i @ setUint32_le (int (length v)) @ v"





section \<open>Properties\<close>

text \<open>
  C10. \<^verbatim>\<open>Curve.verify\<close> is total: for every signing key, message and signature (also
  missing ones) and every behaviour of the Ed25519 primitive it returns a boolean and
  never an error; the boolean is false when the public key is not 32 bytes long, when
  the signature is not 64 bytes long, and when the primitive raises.
\<close>

theorem Curve_verify_total:
  "(\<exists>b. Curve_verify eng signingKey message signature = Inr b) \<and>
   (\<forall>k. signingKey = Some k \<and> length (serialized k) \<noteq> 32 \<longrightarrow>
        Curve_verify eng signingKey message signature = Inr False) \<and>
   (length (case signature of None \<Rightarrow> [] | Some s \<Rightarrow> s) \<noteq> 64 \<longrightarrow>
        Curve_verify eng signingKey message signature = Inr False) \<and>
   ((\<exists>e. Curve_verify_try eng signingKey message signature = Inl e) \<longrightarrow>
        Curve_verify eng signingKey message signature = Inr False)"
  by (auto simp: Curve_verify_def Curve_verify_try_def try_catch_def Let_def
           split: option.splits sum.splits)

theorem Curve_verify_total_witness:
  "Curve_verify toy_engine (Some \<lparr>pk_id = [], pk_type = Ed25519, serialized = []\<rparr>) None None
     = Inr False"
  using Curve_verify_total [of toy_engine "Some \<lparr>pk_id = [], pk_type = Ed25519, serialized = []\<rparr>"
      None None]
  by (simp add: Curve_verify_try_def)

subsection \<open>X3DH\<close>

lemma xor_bytes_commute: "xor_bytes a b = xor_bytes b a"
  unfolding xor_bytes_def
  by (induction a arbitrary: b) (auto simp: zip_Cons1 xor.commute split: list.splits)

lemma toy_dh_commutes: "dh_commutes toy_engine"
  by (simp add: dh_commutes_def toy_engine_def xor_bytes_commute)

lemma toy_dh_succeeds: "dh_succeeds toy_engine"
  by (simp add: dh_succeeds_def toy_engine_def)

lemma toy_pair_ok: "x25519_pair toy_engine (toy_pair n X25519)"
  by (simp add: x25519_pair_def toy_pair_def createPrivateKey_def toy_engine_def)

lemma length_xor_blocks: "length acc = 32 \<Longrightarrow> length (xor_blocks acc d) = 32"
  by (induction acc d rule: xor_blocks.induct)
     (simp_all add: xor_blocks.simps(2) xor_bytes_def pad32_def)

lemma toy_hmac_32: "length (hmac_sha256 toy_engine k d) = 32"
  by (simp add: toy_engine_def toy_hmac_def length_xor_blocks pad32_def)

lemma INFO_TEXT_bytes:
  "INFO_TEXT = [0x53, 0x69, 0x67, 0x6e, 0x61, 0x6c, 0x5f, 0x58, 0x33, 0x44, 0x48]"
  by (simp add: INFO_TEXT_def FromBinary_def)

lemma HKDF_single:
  "HKDF eng IKM (Suc 0) salt info =
     [hmac_sha256 eng (hmac_sha256 eng (case salt of None \<Rightarrow> replicate 32 0 | Some s \<Rightarrow> s) IKM)
         (info @ [1])]"
  by (simp add: HKDF_def Let_def importHMAC_def Secret_sign_def combine_def split: option.splits)

text \<open>An X25519 pair: its private bytes and what \<^verbatim>\<open>deriveBytes\<close> computes with them.\<close>

lemma x25519_pair_raw:
  "x25519_pair eng p \<Longrightarrow>
   \<exists>sk. rawBytes (privateKey p) = Some sk \<and> length sk = 32 \<and>
        serialized (publicKey p) = x25519_getPublicKey eng sk \<and>
        length (serialized (publicKey p)) = 32"
  by (auto simp: x25519_pair_def split: option.splits)

lemma deriveBytes_pairs:
  assumes "dh_commutes eng" and "dh_succeeds eng"
    and p: "x25519_pair eng p" and q: "x25519_pair eng q"
  shows "\<exists>s. deriveBytes eng (privateKey p) (publicKey q) = Inr s \<and>
             deriveBytes eng (privateKey q) (publicKey p) = Inr s \<and>
             x25519_getSharedSecret eng (the (rawBytes (privateKey p))) (serialized (publicKey q))
               = Inr s \<and>
             x25519_getSharedSecret eng (the (rawBytes (privateKey q))) (serialized (publicKey p))
               = Inr s"
proof -
  from x25519_pair_raw [OF p] obtain a where
    a: "rawBytes (privateKey p) = Some a" "length a = 32"
       "serialized (publicKey p) = x25519_getPublicKey eng a"
       "length (serialized (publicKey p)) = 32"
    by blast
  from x25519_pair_raw [OF q] obtain b where
    b: "rawBytes (privateKey q) = Some b" "length b = 32"
       "serialized (publicKey q) = x25519_getPublicKey eng b"
       "length (serialized (publicKey q)) = 32"
    by blast
  from assms(2) a(2) b(2) obtain s where
    s: "x25519_getSharedSecret eng a (x25519_getPublicKey eng b) = Inr s"
    unfolding dh_succeeds_def by blast
  from assms(1) a(2) b(2) have
    "x25519_getSharedSecret eng a (x25519_getPublicKey eng b) =
     x25519_getSharedSecret eng b (x25519_getPublicKey eng a)"
    unfolding dh_commutes_def by blast
  with s have s': "x25519_getSharedSecret eng b (x25519_getPublicKey eng a) = Inr s" by simp
  from a b s s' show ?thesis
    by (simp add: deriveBytes_def Let_def)
qed

text \<open>
  C1. Let the initiator hold the identity \<open>IKa\<close> and the ephemeral pair \<open>EKa\<close>, the
  responder the identity \<open>IKb\<close>, the signed pre-key pair \<open>SPKb\<close> and, optionally, the
  one-time pre-key pair \<open>OPKb\<close>, all of them X25519 pairs; let X25519 return a shared
  secret on such keys and obey the Diffie-Hellman law, and let HMAC-SHA-256 return 32
  bytes. Then there are \<open>DH1\<close>, \<open>DH2\<close>, \<open>DH3\<close>, \<open>DH4\<close> and a root key \<open>rk\<close> such that:
  each \<open>DHi\<close> is the X25519 secret of section 4.4, computed by the initiator from its
  private key and the responder's public key and by the responder the other way round
  (\<open>DH4\<close> is empty without a one-time pre-key); \<^verbatim>\<open>authenticateA\<close> and \<^verbatim>\<open>authenticateB\<close>
  both return \<open>rk\<close>; \<open>rk\<close> has 32 bytes and is the single block of HKDF over
  \<open>F || DH1 || DH2 || DH3 || DH4\<close> with \<open>F\<close> 32 bytes \<open>0xFF\<close>, the salt 32 zero bytes and
  the info the bytes of "Signal_X3DH".
\<close>

theorem x3dh_agreement:
  assumes "dh_commutes eng" and "dh_succeeds eng"
    and "x25519_pair eng (identity_exchangeKey IKa)" and "x25519_pair eng EKa"
    and "x25519_pair eng (identity_exchangeKey IKb)" and "x25519_pair eng SPKb"
    and "\<forall>p. OPKb = Some p \<longrightarrow> x25519_pair eng p"
    and "\<forall>k d. length (hmac_sha256 eng k d) = 32"
  shows "\<exists>DH1 DH2 DH3 DH4 rk.
      x25519_getSharedSecret eng (the (rawBytes (privateKey (identity_exchangeKey IKa))))
         (serialized (publicKey SPKb)) = Inr DH1 \<and>
      x25519_getSharedSecret eng (the (rawBytes (privateKey SPKb)))
         (serialized (publicKey (identity_exchangeKey IKa))) = Inr DH1 \<and>
      x25519_getSharedSecret eng (the (rawBytes (privateKey EKa)))
         (serialized (publicKey (identity_exchangeKey IKb))) = Inr DH2 \<and>
      x25519_getSharedSecret eng (the (rawBytes (privateKey (identity_exchangeKey IKb))))
         (serialized (publicKey EKa)) = Inr DH2 \<and>
      x25519_getSharedSecret eng (the (rawBytes (privateKey EKa)))
         (serialized (publicKey SPKb)) = Inr DH3 \<and>
      x25519_getSharedSecret eng (the (rawBytes (privateKey SPKb)))
         (serialized (publicKey EKa)) = Inr DH3 \<and>
      (case OPKb of
         None \<Rightarrow> DH4 = []
       | Some p \<Rightarrow>
           x25519_getSharedSecret eng (the (rawBytes (privateKey EKa)))
              (serialized (publicKey p)) = Inr DH4 \<and>
           x25519_getSharedSecret eng (the (rawBytes (privateKey p)))
              (serialized (publicKey EKa)) = Inr DH4) \<and>
      authenticateA eng IKa EKa (publicKey (identity_exchangeKey IKb)) (publicKey SPKb)
         (map_option publicKey OPKb) = Inr rk \<and>
      authenticateB eng IKb SPKb (publicKey (identity_exchangeKey IKa)) (publicKey EKa)
         (map_option privateKey OPKb) = Inr rk \<and>
      length rk = 32 \<and>
      HKDF eng (replicate 32 0xff @ DH1 @ DH2 @ DH3 @ DH4) 1 (Some (replicate 32 0))
         [0x53, 0x69, 0x67, 0x6e, 0x61, 0x6c, 0x5f, 0x58, 0x33, 0x44, 0x48] = [rk]"
proof -
  note dh = deriveBytes_pairs [OF assms(1) assms(2)]
  from dh [OF assms(3) assms(6)] obtain DH1 where
    d1: "deriveBytes eng (privateKey (identity_exchangeKey IKa)) (publicKey SPKb) = Inr DH1"
        "deriveBytes eng (privateKey SPKb) (publicKey (identity_exchangeKey IKa)) = Inr DH1"
        "x25519_getSharedSecret eng (the (rawBytes (privateKey (identity_exchangeKey IKa))))
           (serialized (publicKey SPKb)) = Inr DH1"
        "x25519_getSharedSecret eng (the (rawBytes (privateKey SPKb)))
           (serialized (publicKey (identity_exchangeKey IKa))) = Inr DH1"
    by blast
  from dh [OF assms(4) assms(5)] obtain DH2 where
    d2: "deriveBytes eng (privateKey EKa) (publicKey (identity_exchangeKey IKb)) = Inr DH2"
        "deriveBytes eng (privateKey (identity_exchangeKey IKb)) (publicKey EKa) = Inr DH2"
        "x25519_getSharedSecret eng (the (rawBytes (privateKey EKa)))
           (serialized (publicKey (identity_exchangeKey IKb))) = Inr DH2"
        "x25519_getSharedSecret eng (the (rawBytes (privateKey (identity_exchangeKey IKb))))
           (serialized (publicKey EKa)) = Inr DH2"
    by blast
  from dh [OF assms(4) assms(6)] obtain DH3 where
    d3: "deriveBytes eng (privateKey EKa) (publicKey SPKb) = Inr DH3"
        "deriveBytes eng (privateKey SPKb) (publicKey EKa) = Inr DH3"
        "x25519_getSharedSecret eng (the (rawBytes (privateKey EKa)))
           (serialized (publicKey SPKb)) = Inr DH3"
        "x25519_getSharedSecret eng (the (rawBytes (privateKey SPKb)))
           (serialized (publicKey EKa)) = Inr DH3"
    by blast
  obtain DH4 where
    d4: "(case OPKb of None \<Rightarrow> Inr []
          | Some p \<Rightarrow> deriveBytes eng (privateKey EKa) (publicKey p)) = Inr DH4"
        "(case OPKb of None \<Rightarrow> Inr []
          | Some p \<Rightarrow> deriveBytes eng (privateKey p) (publicKey EKa)) = Inr DH4"
        "(case OPKb of
            None \<Rightarrow> DH4 = []
          | Some p \<Rightarrow>
              x25519_getSharedSecret eng (the (rawBytes (privateKey EKa)))
                 (serialized (publicKey p)) = Inr DH4 \<and>
              x25519_getSharedSecret eng (the (rawBytes (privateKey p)))
                 (serialized (publicKey EKa)) = Inr DH4)"
  proof (cases OPKb)
    case None
    then show ?thesis using that [of "[]"] by simp
  next
    case (Some p)
    with assms(7) have "x25519_pair eng p" by simp
    from dh [OF assms(4) this] obtain s where
      "deriveBytes eng (privateKey EKa) (publicKey p) = Inr s"
      "deriveBytes eng (privateKey p) (publicKey EKa) = Inr s"
      "x25519_getSharedSecret eng (the (rawBytes (privateKey EKa)))
         (serialized (publicKey p)) = Inr s"
      "x25519_getSharedSecret eng (the (rawBytes (privateKey p)))
         (serialized (publicKey EKa)) = Inr s"
      by blast
    with Some show ?thesis using that [of s] by simp
  qed
  let ?KM = "replicate 32 0xff @ DH1 @ DH2 @ DH3 @ DH4"
  let ?rk = "hmac_sha256 eng (hmac_sha256 eng (replicate 32 0) ?KM) (INFO_TEXT @ [1])"
  have A: "authenticateA eng IKa EKa (publicKey (identity_exchangeKey IKb)) (publicKey SPKb)
             (map_option publicKey OPKb) = Inr ?rk"
    using d4(1)
    by (cases OPKb)
       (simp_all add: authenticateA_def bindE_def d1(1) d2(1) d3(1) HKDF_single combine_def
          importHMAC_def X3DH_SALT_LENGTH_def X3DH_FILL_BYTE_def)
  have B: "authenticateB eng IKb SPKb (publicKey (identity_exchangeKey IKa)) (publicKey EKa)
             (map_option privateKey OPKb) = Inr ?rk"
    using d4(2)
    by (cases OPKb)
       (simp_all add: authenticateB_def bindE_def d1(2) d2(2) d3(2) HKDF_single combine_def
          importHMAC_def X3DH_SALT_LENGTH_def X3DH_FILL_BYTE_def)
  have len: "length ?rk = 32" using assms(8) by simp
  have H: "HKDF eng ?KM 1 (Some (replicate 32 0))
             [0x53, 0x69, 0x67, 0x6e, 0x61, 0x6c, 0x5f, 0x58, 0x33, 0x44, 0x48] = [?rk]"
    by (simp add: HKDF_single INFO_TEXT_bytes)
  from d1(3,4) d2(3,4) d3(3,4) d4(3) A B len H show ?thesis by blast
qed

theorem x3dh_agreement_witness:
  "authenticateA toy_engine (toy_identity 1 1 2 [] []) (toy_pair 3 X25519)
      (publicKey (identity_exchangeKey (toy_identity 2 4 5 [7] [6])))
      (publicKey (toy_pair 6 X25519)) (Some (publicKey (toy_pair 7 X25519))) =
     Inr [149, 155, 146, 157, 144, 163, 164, 207, 184, 180, 253, 252, 252, 252,
          252, 252, 252, 252, 252, 252, 252, 252, 252, 252, 252, 252, 252, 252,
          252, 252, 252, 175] \<and>
   authenticateB toy_engine (toy_identity 2 4 5 [7] [6]) (toy_pair 6 X25519)
      (publicKey (identity_exchangeKey (toy_identity 1 1 2 [] []))) (publicKey (toy_pair 3 X25519))
      (Some (privateKey (toy_pair 7 X25519))) =
     Inr [149, 155, 146, 157, 144, 163, 164, 207, 184, 180, 253, 252, 252, 252,
          252, 252, 252, 252, 252, 252, 252, 252, 252, 252, 252, 252, 252, 252,
          252, 252, 252, 175]"
proof -
  have h3: "x25519_pair toy_engine (identity_exchangeKey (toy_identity 1 1 2 [] []))"
    by (simp add: toy_identity_def toy_pair_ok)
  have h5: "x25519_pair toy_engine (identity_exchangeKey (toy_identity 2 4 5 [7] [6]))"
    by (simp add: toy_identity_def toy_pair_ok)
  have h7: "\<forall>p. Some (toy_pair 7 X25519) = Some p \<longrightarrow> x25519_pair toy_engine p"
    by (simp add: toy_pair_ok)
  have h8: "\<forall>k d. length (hmac_sha256 toy_engine k d) = 32"
    by (simp add: toy_hmac_32)
  have A: "authenticateA toy_engine (toy_identity 1 1 2 [] []) (toy_pair 3 X25519)
      (publicKey (identity_exchangeKey (toy_identity 2 4 5 [7] [6])))
      (publicKey (toy_pair 6 X25519)) (Some (publicKey (toy_pair 7 X25519))) =
     Inr [149, 155, 146, 157, 144, 163, 164, 207, 184, 180, 253, 252, 252, 252,
          252, 252, 252, 252, 252, 252, 252, 252, 252, 252, 252, 252, 252, 252,
          252, 252, 252, 175]"
    by code_simp
  have "\<exists>rk.
    authenticateA toy_engine (toy_identity 1 1 2 [] []) (toy_pair 3 X25519)
      (publicKey (identity_exchangeKey (toy_identity 2 4 5 [7] [6])))
      (publicKey (toy_pair 6 X25519)) (Some (publicKey (toy_pair 7 X25519))) = Inr rk \<and>
    authenticateB toy_engine (toy_identity 2 4 5 [7] [6]) (toy_pair 6 X25519)
      (publicKey (identity_exchangeKey (toy_identity 1 1 2 [] []))) (publicKey (toy_pair 3 X25519))
      (Some (privateKey (toy_pair 7 X25519))) = Inr rk"
    using x3dh_agreement [OF toy_dh_commutes toy_dh_succeeds h3 toy_pair_ok [of 3] h5
      toy_pair_ok [of 6] h7 h8]
    unfolding option.map by blast
  with A show ?thesis by simp
qed

subsection \<open>The codec\<close>



lemma length_setUint32_le [simp]: "length (setUint32_le v) = 4"
  by (simp add: setUint32_le_def)

lemma length_frame [simp]: "length (frame i sv) = 8 + length sv"
  by (simp add: frame_def)

































end
